theory Spec2Isabelle
  imports Main
begin

section \<open>JavaScript strings and values\<close>

text \<open>
  A JavaScript string is modelled as a \<^typ>\<open>string\<close>: one \<^typ>\<open>char\<close> per UTF-16 code
  unit, for code units below 256. \<open>substring(0, n)\<close> is \<^term>\<open>take n\<close>, \<open>slice(0, n)\<close>
  on an array is \<^term>\<open>take n\<close> as well.
\<close>

definition isWhiteSpace :: "char \<Rightarrow> bool" where
  \<comment> \<open>the code units below 256 that \<open>String.prototype.trim\<close> strips:
      TAB, LF, VT, FF, CR, SPACE and NBSP\<close>
  "isWhiteSpace c = ((of_char c :: nat) \<in> {9, 10, 11, 12, 13, 32, 160})"

definition trim :: "string \<Rightarrow> string" where
  "trim s = rev (dropWhile isWhiteSpace (rev (dropWhile isWhiteSpace s)))"

definition toLowerChar :: "char \<Rightarrow> char" where
  \<comment> \<open>\<open>toLowerCase\<close> on one code unit below 256: A-Z and the Latin-1 capitals\<close>
  "toLowerChar c =
     (let n = (of_char c :: nat)
      in if (65 \<le> n \<and> n \<le> 90) \<or> (192 \<le> n \<and> n \<le> 222 \<and> n \<noteq> 215)
         then char_of (n + 32) else c)"

definition toLowerCase :: "string \<Rightarrow> string" where
  "toLowerCase s = map toLowerChar s"

definition startsWith :: "string \<Rightarrow> string \<Rightarrow> bool" where
  \<comment> \<open>the literal \<open>p\<close> matches at the start of \<open>s\<close>\<close>
  "startsWith p s = (take (length p) s = p)"

definition startsWithCI :: "string \<Rightarrow> string \<Rightarrow> bool" where
  \<comment> \<open>the literal \<open>p\<close> matches at the start of \<open>s\<close> under the regex flag \<open>i\<close>\<close>
  "startsWithCI p s = (toLowerCase (take (length p) s) = toLowerCase p)"

fun jsOr :: "string option \<Rightarrow> string \<Rightarrow> string" where
  \<comment> \<open>\<open>a || b\<close> for \<open>a : string | undefined\<close>: \<open>undefined\<close> and \<open>''\<close> are falsy\<close>
  "jsOr None b = b"
| "jsOr (Some a) b = (if a = [] then b else a)"

section \<open>Color extraction (extractWebpageContent, lines 62-72)\<close>

definition isHexDigit :: "char \<Rightarrow> bool" where
  \<comment> \<open>the character class \<open>[0-9a-fA-F]\<close>\<close>
  "isHexDigit c = (c \<in> set ''0123456789abcdefABCDEF'')"

definition matchHex :: "nat \<Rightarrow> string \<Rightarrow> nat option" where
  \<comment> \<open>\<open>#[0-9a-fA-F]{n}\<close> at the start of \<open>s\<close>; the result is the length of the match\<close>
  "matchHex n s =
     (case s of
        [] \<Rightarrow> None
      | c # cs \<Rightarrow>
          if c = CHR ''#'' \<and> n \<le> length cs \<and> list_all isHexDigit (take n cs)
          then Some (Suc n) else None)"

definition matchFunctional :: "string \<Rightarrow> string \<Rightarrow> nat option" where
  \<comment> \<open>\<open>name\([^)]+\)\<close> at the start of \<open>s\<close>: the greedy run of characters other than
      \<open>)\<close> must be non-empty and must be followed by \<open>)\<close>\<close>
  "matchFunctional name s =
     (if startsWith (name @ ''('') s
      then (let rest = drop (length name + 1) s;
                run = takeWhile (\<lambda>c. c \<noteq> CHR '')'') rest
            in if run \<noteq> [] \<and> length run < length rest
               then Some (length name + 1 + length run + 1) else None)
      else None)"

definition matchColorAt :: "string \<Rightarrow> nat option" where
  \<comment> \<open>the alternation \<open>#[0-9a-fA-F]{6}|#[0-9a-fA-F]{3}|rgb\([^)]+\)|rgba\([^)]+\)\<close>
      tried at the start of \<open>s\<close>, alternatives in order\<close>
  "matchColorAt s =
     (case matchHex 6 s of
        Some n \<Rightarrow> Some n
      | None \<Rightarrow>
          (case matchHex 3 s of
             Some n \<Rightarrow> Some n
           | None \<Rightarrow>
               (case matchFunctional ''rgb'' s of
                  Some n \<Rightarrow> Some n
                | None \<Rightarrow> matchFunctional ''rgba'' s)))"

fun scanColors :: "string \<Rightarrow> string list" where
  \<comment> \<open>the matches of the global regex, left to right; after a match the scan goes on
      behind it (every match has at least one character)\<close>
  "scanColors [] = []"
| "scanColors (c # cs) =
     (case matchColorAt (c # cs) of
        None \<Rightarrow> scanColors cs
      | Some n \<Rightarrow> take n (c # cs) # scanColors (drop (n - 1) cs))"

definition colorMatches :: "string \<Rightarrow> string list option" where
  \<comment> \<open>\<open>styleContent.match(/.../g)\<close>: \<open>null\<close> when nothing matches\<close>
  "colorMatches styleContent =
     (case scanColors styleContent of [] \<Rightarrow> None | m # ms \<Rightarrow> Some (m # ms))"

definition newSet :: "string list \<Rightarrow> string list" where
  \<comment> \<open>\<open>[...new Set(xs)]\<close>: the elements in insertion order, an element equal to an
      earlier one (same string) is not added again\<close>
  "newSet xs = foldl (\<lambda>acc x. if x \<in> set acc then acc else acc @ [x]) [] xs"

definition blocklist :: "string list" where
  "blocklist = [''#000'', ''#fff'', ''#ffffff'', ''#000000'', ''rgb(0,0,0)'', ''rgb(255,255,255)'']"

definition uniqueColors :: "string list \<Rightarrow> string list" where
  "uniqueColors ms =
     take 3 (filter (\<lambda>color. toLowerCase color \<notin> set blocklist) (newSet ms))"

definition extractedColorsOf :: "string \<Rightarrow> string list" where
  \<comment> \<open>the array \<open>extractedColors\<close> after lines 63-72\<close>
  "extractedColorsOf styleContent =
     (case colorMatches styleContent of
        None \<Rightarrow> []
      | Some ms \<Rightarrow> [] @ uniqueColors ms)"

section \<open>Metadata extraction (extractWebpageContent, lines 39-60)\<close>

text \<open>
  The document is parsed by the external library cheerio. The model takes the parsed
  document as the results of the queries that \<open>extractWebpageContent\<close> runs on it:
  \<open>text()\<close> of an empty selection is the empty string, \<open>attr('content')\<close> of an empty
  selection, or of an element without that attribute, is \<open>undefined\<close> (\<^term>\<open>None\<close>).
\<close>

record dom =
  titleText :: string
    \<comment> \<open>\<open>$('title').text()\<close>\<close>
  ogTitleContent :: "string option"
    \<comment> \<open>\<open>$('meta[property="og:title"]').attr('content')\<close>\<close>
  h1FirstText :: string
    \<comment> \<open>\<open>$('h1').first().text()\<close>\<close>
  descriptionContent :: "string option"
    \<comment> \<open>\<open>$('meta[name="description"]').attr('content')\<close>\<close>
  ogDescriptionContent :: "string option"
    \<comment> \<open>\<open>$('meta[property="og:description"]').attr('content')\<close>\<close>
  pFirstText :: string
    \<comment> \<open>\<open>$('p').first().text()\<close>\<close>
  keywordsMetaContent :: "string option"
    \<comment> \<open>\<open>$('meta[name="keywords"]').attr('content')\<close>\<close>
  mainFirstText :: string
    \<comment> \<open>\<open>$('main, article, .content, #content').first().text()\<close>\<close>
  bodyText :: string
    \<comment> \<open>\<open>$('body').text()\<close>\<close>
  styleText :: string
    \<comment> \<open>\<open>$('style').text()\<close>\<close>

record webpage_content =
  title :: string
  description :: string
  keywordList :: "string list"
    \<comment> \<open>the field \<open>keywords\<close>\<close>
  mainContent :: string
  extractedColors :: "string list"
  domain :: string

definition titleOf :: "dom \<Rightarrow> string" where
  \<comment> \<open>the constant \<open>title\<close> of lines 40-43; \<open>||\<close> yields its first truthy operand\<close>
  "titleOf d =
     jsOr (Some (trim (titleText d)))
       (jsOr (ogTitleContent d)
          (jsOr (Some (trim (h1FirstText d)))
             ''Untitled Page''))"

definition descriptionOf :: "dom \<Rightarrow> string" where
  "descriptionOf d =
     jsOr (descriptionContent d)
       (jsOr (ogDescriptionContent d)
          (jsOr (Some (take 200 (trim (pFirstText d))))
             ''No description available''))"

fun splitOn :: "char \<Rightarrow> string \<Rightarrow> string list" where
  \<comment> \<open>\<open>s.split(sep)\<close> for a one-character separator\<close>
  "splitOn sep [] = [[]]"
| "splitOn sep (c # cs) =
     (if c = sep then [] # splitOn sep cs
      else (case splitOn sep cs of
              [] \<Rightarrow> [[c]]
            | w # ws \<Rightarrow> (c # w) # ws))"

definition keywordsOf :: "dom \<Rightarrow> string list" where
  "keywordsOf d =
     (let keywordsContent = jsOr (keywordsMetaContent d) []
      in if keywordsContent \<noteq> [] then map trim (splitOn CHR '','' keywordsContent) else [])"

definition mainContentOf :: "dom \<Rightarrow> string" where
  "mainContentOf d =
     jsOr (Some (take 500 (trim (mainFirstText d)))) (take 500 (trim (bodyText d)))"

fun replaceFirst :: "string \<Rightarrow> string \<Rightarrow> string \<Rightarrow> string" where
  \<comment> \<open>\<open>s.replace(p, r)\<close> with a string pattern: only the first occurrence is replaced\<close>
  "replaceFirst p r [] = (if p = [] then r else [])"
| "replaceFirst p r (c # cs) =
     (if startsWith p (c # cs) then r @ drop (length p) (c # cs)
      else c # replaceFirst p r cs)"

definition contentOf :: "dom \<Rightarrow> string \<Rightarrow> webpage_content" where
  \<comment> \<open>the object returned at lines 74-81, \<open>hostname\<close> being \<open>new URL(url).hostname\<close>\<close>
  "contentOf d hostname =
     \<lparr> title = take 100 (titleOf d),
       description = take 200 (descriptionOf d),
       keywordList = take 10 (keywordsOf d),
       mainContent = mainContentOf d,
       extractedColors = extractedColorsOf (styleText d),
       domain = replaceFirst ''www.'' [] hostname \<rparr>"

section \<open>The outside world\<close>

datatype thrown = JsError string | NonError
  \<comment> \<open>a thrown value: an \<open>Error\<close> object with its message, or a value that is no \<open>Error\<close>\<close>

record http_response =
  ok :: bool
  status :: nat
  responseText :: "thrown + string"
    \<comment> \<open>what \<open>await response.text()\<close> gives: the body, or a rejection\<close>

datatype content_block = TextBlock string | OtherBlock

text \<open>
  The request body is unchecked JSON: the interface \<open>RequestBody\<close> is not enforced at run
  time, so \<open>url\<close> and \<open>template\<close> are any values. The handler uses such a value in two
  ways only, by its truthiness and by the string it converts to (as a property key, in
  the template literal, inside \<open>new URL\<close> and the fetcher), and the model keeps a value
  with what these two need:
  \<^item> a number by whether it is \<open>0\<close> and by the string it converts to;
  \<^item> an array by its elements (it converts to their conversions joined with commas);
  \<^item> any other object, and a built-in object of the engine, by the string it converts
    to.
  An object whose conversion to a string throws (one with an own \<open>toString\<close> property)
  is not covered.
\<close>

datatype js_value =
    JsUndefined
  | JsNull
  | JsBoolean bool
  | JsNumber bool string
      \<comment> \<open>is it zero; the string it converts to\<close>
  | JsString string
  | JsArray "js_value list"
  | JsObject string
      \<comment> \<open>the string it converts to\<close>

fun truthy :: "js_value \<Rightarrow> bool" where
  \<comment> \<open>\<open>!v\<close> is \<^term>\<open>\<not> truthy v\<close>\<close>
  "truthy JsUndefined = False"
| "truthy JsNull = False"
| "truthy (JsBoolean b) = b"
| "truthy (JsNumber zero s) = (\<not> zero)"
| "truthy (JsString s) = (s \<noteq> [])"
| "truthy (JsArray xs) = True"
| "truthy (JsObject s) = True"

fun join :: "string \<Rightarrow> string list \<Rightarrow> string" where
  \<comment> \<open>\<open>xs.join(sep)\<close>\<close>
  "join sep [] = []"
| "join sep [x] = x"
| "join sep (x # y # ys) = x @ sep @ join sep (y # ys)"

fun toStringJs :: "js_value \<Rightarrow> string" where
  \<comment> \<open>the conversion to a string, which is also the conversion to a property key\<close>
  "toStringJs JsUndefined = ''undefined''"
| "toStringJs JsNull = ''null''"
| "toStringJs (JsBoolean b) = (if b then ''true'' else ''false'')"
| "toStringJs (JsNumber zero s) = s"
| "toStringJs (JsString s) = s"
| "toStringJs (JsArray xs) =
     join '',''
       (map (\<lambda>x. case x of JsUndefined \<Rightarrow> [] | JsNull \<Rightarrow> [] | _ \<Rightarrow> toStringJs x) xs)"
| "toStringJs (JsObject s) = s"

record request_body =
  url :: js_value
  template :: js_value

datatype json_value = JsonNull | JsonFields request_body
  \<comment> \<open>a parsed request body: \<open>null\<close>, or a value read at its properties \<open>url\<close> and
      \<open>template\<close> (\<^term>\<open>JsUndefined\<close> for a property that is not there)\<close>

record externals =
  apiKey :: "string option"
    \<comment> \<open>\<open>process.env.ANTHROPIC_API_KEY\<close>\<close>
  jsonParse :: "string \<Rightarrow> thrown + json_value"
    \<comment> \<open>\<open>JSON.parse\<close>, \<^term>\<open>Inl\<close> its \<open>SyntaxError\<close>\<close>
  typeError :: "string \<Rightarrow> thrown"
    \<comment> \<open>the \<open>TypeError\<close> of the engine for reading the named property of \<open>null\<close> or
        \<open>undefined\<close>\<close>
  objectPrototype :: "string \<Rightarrow> js_value"
    \<comment> \<open>the property of that name that every object literal inherits from
        \<open>Object.prototype\<close> (\<open>constructor\<close>, \<open>toString\<close>, ...), \<^term>\<open>JsUndefined\<close> when
        there is none\<close>
  newURL :: "js_value \<Rightarrow> thrown + string"
    \<comment> \<open>\<open>new URL(u)\<close>: the \<open>hostname\<close> of the parsed URL, or what the constructor throws\<close>
  fetch :: "js_value \<Rightarrow> thrown + http_response"
    \<comment> \<open>node-fetch with the fixed headers and the 10 s timeout\<close>
  cheerioLoad :: "string \<Rightarrow> thrown + dom"
  messagesCreate :: "string \<Rightarrow> thrown + content_block list"
    \<comment> \<open>\<open>anthropic.messages.create\<close> on a prompt: \<open>response.content\<close>, or a rejection\<close>

text \<open>
  Every function with effects returns its result together with the effects it had, in
  order: the calls of the fetcher and of the generation service, and what it wrote with
  \<open>console.error\<close>. An \<open>await\<close>ed promise that rejects is a throw at the \<open>await\<close>.
\<close>

datatype effect =
    Fetch js_value
  | MessagesCreate string
  | ConsoleError string thrown

definition networkCalls :: "effect list \<Rightarrow> effect list" where
  "networkCalls tr =
     filter (\<lambda>e. case e of Fetch _ \<Rightarrow> True | MessagesCreate _ \<Rightarrow> True | ConsoleError _ _ \<Rightarrow> False) tr"

definition getProperty ::
  "externals \<Rightarrow> ('a \<Rightarrow> js_value) \<Rightarrow> (string \<times> 'a) list \<Rightarrow> js_value \<Rightarrow> js_value" where
  \<comment> \<open>\<open>obj[k]\<close> for an object literal \<open>obj\<close>: the own property named by the conversion of
      \<open>k\<close>, or else what the literal inherits under that name\<close>
  "getProperty w inject obj k =
     (case map_of obj (toStringJs k) of
        Some v \<Rightarrow> inject v
      | None \<Rightarrow> objectPrototype w (toStringJs k))"

section \<open>extractWebpageContent\<close>

fun showNat :: "nat \<Rightarrow> string" where
  "showNat n =
     (if n < 10 then [char_of (48 + n)]
      else showNat (n div 10) @ [char_of (48 + n mod 10)])"

definition extractCatch :: "thrown \<Rightarrow> effect list \<Rightarrow> (thrown + webpage_content) \<times> effect list" where
  \<comment> \<open>the \<open>catch\<close> block of lines 82-85\<close>
  "extractCatch error tr =
     (Inl (JsError ''Failed to analyze webpage content''),
      tr @ [ConsoleError ''Error extracting webpage content:'' error])"

definition extractWebpageContent ::
  "externals \<Rightarrow> js_value \<Rightarrow> (thrown + webpage_content) \<times> effect list" where
  "extractWebpageContent w u =
     (case fetch w u of
        Inl e \<Rightarrow> extractCatch e [Fetch u]
      | Inr response \<Rightarrow>
          if \<not> ok response
          then extractCatch (JsError (''HTTP error! status: '' @ showNat (status response))) [Fetch u]
          else (case responseText response of
                  Inl e \<Rightarrow> extractCatch e [Fetch u]
                | Inr html \<Rightarrow>
                    (case cheerioLoad w html of
                       Inl e \<Rightarrow> extractCatch e [Fetch u]
                     | Inr d \<Rightarrow>
                         (case newURL w u of
                            Inl e \<Rightarrow> extractCatch e [Fetch u]
                          | Inr hostname \<Rightarrow> (Inr (contentOf d hostname), [Fetch u])))))"

section \<open>generateBannerWithAI\<close>

definition templateDescriptions :: "(string \<times> string) list" where
  "templateDescriptions =
     [(''modern'', ''Clean, professional design with subtle geometric elements, plenty of white space, and a sophisticated color palette. Use modern typography and minimal decorative elements.''),
      (''minimal'', ''Ultra-clean design with minimal elements, centered text, simple typography, and lots of white space. Focus on typography hierarchy and negative space.''),
      (''gradient'', ''Dynamic design with vibrant gradients, bold colors, and modern visual effects. Use smooth color transitions and contemporary styling.''),
      (''bold'', ''Strong, impactful design with bold colors, large typography, and geometric shapes. Create high contrast and eye-catching elements.'')]"

definition prompt :: "externals \<Rightarrow> webpage_content \<Rightarrow> js_value \<Rightarrow> string" where
  \<comment> \<open>the template literal of lines 96-127, line by line\<close>
  "prompt w content t = join ''\<newline>''
     [''Create a professional social media banner in SVG format (1200x630 pixels) to promote the following webpage:'',
      [],
      ''WEBPAGE CONTENT:'',
      ''- Original Title: '' @ title content,
      ''- Description: '' @ description content,
      ''- Domain: '' @ domain content,
      ''- Keywords: '' @ join '', '' (keywordList content),
      (if length (extractedColors content) > 0
       then ''- Website Colors: '' @ join '', '' (extractedColors content) else []),
      [],
      ''DESIGN REQUIREMENTS:'',
      ''1. Template Style: '' @ toStringJs t @ '' - ''
         @ toStringJs (getProperty w JsString templateDescriptions t),
      ''2. Create compelling promotional text (don't copy the original title/description exactly)'',
      ''3. Generate a catchy headline and subtitle that would make people want to visit the website'',
      ''4. Use ONLY 2 main colors maximum (primary and secondary) plus white/black for text'',
      ''5. Ensure ALL text fits comfortably within the 1200x630 canvas with proper margins'',
      ''6. Use web-safe fonts (Arial, Helvetica, sans-serif)'',
      ''7. Include the domain name subtly in the design'',
      ''8. Make it look like a professional social media promotional banner'',
      [],
      ''TEXT GUIDELINES:'',
      ''- Create a compelling headline (not the exact page title)'',
      ''- Write an engaging subtitle/tagline'',
      ''- Keep text concise and readable'',
      ''- Ensure proper text hierarchy'',
      ''- Leave adequate margins (at least 60px from edges)'',
      [],
      ''COLOR GUIDELINES:'',
      ''- Use maximum 2 main colors from the website or create a harmonious 2-color palette'',
      ''- Ensure high contrast for readability'',
      ''- Use colors strategically to guide attention'',
      [],
      ''Return ONLY the complete SVG code with proper viewBox and dimensions. No explanations.'']"

fun greedyClose :: "string \<Rightarrow> string option" where
  \<comment> \<open>\<open>[\s\S]*<\/svg>\<close> with flag \<open>i\<close> at the start of \<open>s\<close>: the star is greedy, so the
      match is the longest prefix of \<open>s\<close> that ends in a closing tag\<close>
  "greedyClose [] = None"
| "greedyClose (c # cs) =
     (case greedyClose cs of
        Some r \<Rightarrow> Some (c # r)
      | None \<Rightarrow> if startsWithCI ''</svg>'' (c # cs) then Some (take 6 (c # cs)) else None)"

fun svgMatch :: "string \<Rightarrow> string option" where
  \<comment> \<open>\<open>svgContent.match(/<svg[\s\S]*<\/svg>/i)\<close>: the match at the leftmost position
      that has one, \<open>null\<close> when there is none\<close>
  "svgMatch [] = None"
| "svgMatch (c # cs) =
     (if startsWithCI ''<svg'' (c # cs)
      then (case greedyClose (drop 3 cs) of
              Some r \<Rightarrow> Some (take 4 (c # cs) @ r)
            | None \<Rightarrow> svgMatch cs)
      else svgMatch cs)"

definition generateCatch :: "thrown \<Rightarrow> effect list \<Rightarrow> (thrown + string) \<times> effect list" where
  \<comment> \<open>the \<open>catch\<close> block of lines 150-153\<close>
  "generateCatch error tr =
     (Inl (JsError ''Failed to generate banner with AI''),
      tr @ [ConsoleError ''Error generating banner with AI:'' error])"

definition generateBannerWithAI ::
  "externals \<Rightarrow> webpage_content \<Rightarrow> js_value \<Rightarrow> (thrown + string) \<times> effect list" where
  "generateBannerWithAI w content t =
     (let p = prompt w content t in
      case messagesCreate w p of
        Inl e \<Rightarrow> generateCatch e [MessagesCreate p]
      | Inr blocks \<Rightarrow>
          (case blocks of
             [] \<Rightarrow> generateCatch (typeError w ''type'') [MessagesCreate p]
           | b # _ \<Rightarrow>
               (let svgContent = (case b of TextBlock txt \<Rightarrow> txt | OtherBlock \<Rightarrow> [])
                in case svgMatch svgContent of
                     Some m \<Rightarrow> (Inr m, [MessagesCreate p])
                   | None \<Rightarrow>
                       generateCatch (JsError ''No valid SVG found in AI response'')
                         [MessagesCreate p])))"

section \<open>handler\<close>

record event =
  httpMethod :: string
  body :: "string option"
    \<comment> \<open>\<open>event.body\<close>, \<^term>\<open>None\<close> for \<open>null\<close>\<close>

record analysis_result =
  resultTitle :: string
  resultDescription :: string
  colors :: js_value
    \<comment> \<open>whatever the variable \<open>colors\<close> holds; \<open>JSON.stringify\<close> leaves the property
        out when that is \<open>undefined\<close>\<close>
  resultKeywords :: "string list"
  svgContent :: string

datatype response_body =
    EmptyBody
      \<comment> \<open>the empty string\<close>
  | ErrorBody string
      \<comment> \<open>\<open>JSON.stringify({ error })\<close>\<close>
  | ErrorMessageBody string string
      \<comment> \<open>\<open>JSON.stringify({ error, message })\<close>\<close>
  | ResultBody analysis_result
      \<comment> \<open>\<open>JSON.stringify(result)\<close>\<close>

record response =
  statusCode :: nat
  headers :: "(string \<times> string) list"
  responseBody :: response_body

definition corsHeaders :: "(string \<times> string) list" where
  "corsHeaders =
     [(''Access-Control-Allow-Origin'', ''*''),
      (''Access-Control-Allow-Headers'', ''Content-Type''),
      (''Access-Control-Allow-Methods'', ''POST, OPTIONS''),
      (''Content-Type'', ''application/json'')]"

definition respond :: "nat \<Rightarrow> response_body \<Rightarrow> response" where
  "respond code b = \<lparr> statusCode = code, headers = corsHeaders, responseBody = b \<rparr>"

definition defaultColorPalettes :: "(string \<times> string list) list" where
  "defaultColorPalettes =
     [(''modern'', [''#3B82F6'', ''#64748B'']),
      (''minimal'', [''#1F2937'', ''#9CA3AF'']),
      (''gradient'', [''#6366F1'', ''#EC4899'']),
      (''bold'', [''#EF4444'', ''#F59E0B''])]"

definition stringArray :: "string list \<Rightarrow> js_value" where
  "stringArray xs = JsArray (map JsString xs)"

definition getIndex1 :: "externals \<Rightarrow> js_value \<Rightarrow> thrown + js_value" where
  \<comment> \<open>\<open>v[1]\<close>: a \<open>TypeError\<close> on \<open>undefined\<close> and \<open>null\<close>, the second element of an
      array, the second character of a string, and \<open>undefined\<close> where there is no
      property \<open>1\<close>\<close>
  "getIndex1 w v =
     (case v of
        JsUndefined \<Rightarrow> Inl (typeError w ''1'')
      | JsNull \<Rightarrow> Inl (typeError w ''1'')
      | JsArray xs \<Rightarrow> Inr (if 1 < length xs then xs ! 1 else JsUndefined)
      | JsString s \<Rightarrow> Inr (if 1 < length s then JsString [s ! 1] else JsUndefined)
      | _ \<Rightarrow> Inr JsUndefined)"

definition colorsOf :: "externals \<Rightarrow> js_value \<Rightarrow> string list \<Rightarrow> thrown + js_value" where
  \<comment> \<open>the variable \<open>colors\<close> after lines 219-224, or what line 223 throws\<close>
  "colorsOf w t extracted =
     (if length extracted \<ge> 2 then Inr (stringArray (take 2 extracted))
      else if length extracted = 1
      then (case getIndex1 w (getProperty w stringArray defaultColorPalettes t) of
              Inl e \<Rightarrow> Inl e
            | Inr second \<Rightarrow> Inr (JsArray [JsString (extracted ! 0), second]))
      else Inr (getProperty w stringArray defaultColorPalettes t))"

definition messageOf :: "thrown \<Rightarrow> string" where
  \<comment> \<open>\<open>error instanceof Error ? error.message : 'Unknown error'\<close>\<close>
  "messageOf error = (case error of JsError m \<Rightarrow> m | NonError \<Rightarrow> ''Unknown error'')"

definition handlerTry :: "externals \<Rightarrow> event \<Rightarrow> (thrown + response) \<times> effect list" where
  \<comment> \<open>the \<open>try\<close> block of lines 181-242: \<^term>\<open>Inr\<close> what it returns, \<^term>\<open>Inl\<close> what it throws\<close>
  "handlerTry w ev =
     (if jsOr (apiKey w) [] = []
      then (Inl (JsError ''ANTHROPIC_API_KEY environment variable is not set''), [])
      else
        (case jsonParse w (jsOr (body ev) ''{}'') of
           Inl e \<Rightarrow> (Inl e, [])
         | Inr JsonNull \<Rightarrow> (Inl (typeError w ''url''), [])
         | Inr (JsonFields b) \<Rightarrow>
             if \<not> truthy (url b) \<or> \<not> truthy (template b)
             then (Inr (respond 400 (ErrorBody ''URL and template are required'')), [])
             else
               (case newURL w (url b) of
                  Inl _ \<Rightarrow> (Inr (respond 400 (ErrorBody ''Invalid URL provided'')), [])
                | Inr _ \<Rightarrow>
                    (case extractWebpageContent w (url b) of
                       (Inl e, tr1) \<Rightarrow> (Inl e, tr1)
                     | (Inr webpageContent, tr1) \<Rightarrow>
                         (case colorsOf w (template b) (extractedColors webpageContent) of
                            Inl e \<Rightarrow> (Inl e, tr1)
                          | Inr colorsValue \<Rightarrow>
                              (case generateBannerWithAI w webpageContent (template b) of
                                 (Inl e, tr2) \<Rightarrow> (Inl e, tr1 @ tr2)
                               | (Inr svg, tr2) \<Rightarrow>
                                   (Inr (respond 200 (ResultBody
                                      \<lparr> resultTitle = title webpageContent,
                                        resultDescription = description webpageContent,
                                        colors = colorsValue,
                                        resultKeywords = keywordList webpageContent,
                                        svgContent = svg \<rparr>)),
                                    tr1 @ tr2)))))))"

definition handler :: "externals \<Rightarrow> event \<Rightarrow> response \<times> effect list" where
  "handler w ev =
     (if httpMethod ev = ''OPTIONS'' then (respond 200 EmptyBody, [])
      else if httpMethod ev \<noteq> ''POST''
      then (respond 405 (ErrorBody ''Method not allowed''), [])
      else
        (case handlerTry w ev of
           (Inr r, tr) \<Rightarrow> (r, tr)
         | (Inl error, tr) \<Rightarrow>
             (respond 500 (ErrorMessageBody ''Internal server error'' (messageOf error)),
              tr @ [ConsoleError ''Function error:'' error])))"

section \<open>A fixture world\<close>

text \<open>
  Concrete collaborators, used to run the handler on concrete requests: a page with a
  title, one paragraph and no colors, a generation service that answers with a fenced
  SVG and trailing commentary, and variants in which one collaborator fails.
\<close>

definition fixtureDom :: dom where
  "fixtureDom =
     \<lparr> titleText = ''Example'', ogTitleContent = None, h1FirstText = [],
       descriptionContent = None, ogDescriptionContent = None,
       pFirstText = ''Hello world and more.'', keywordsMetaContent = None,
       mainFirstText = [], bodyText = ''Hello world and more.'', styleText = [] \<rparr>"

definition fixtureParse :: "string \<Rightarrow> thrown + json_value" where
  \<open>fixtureParse s =
     (if s = ''{}'' then Inr (JsonFields \<lparr> url = JsUndefined, template = JsUndefined \<rparr>)
      else if s = ''null'' then Inr JsonNull
      else if s = ''{"url":"https://example.com","template":"bold"}''
      then Inr (JsonFields \<lparr> url = JsString ''https://example.com'', template = JsString ''bold'' \<rparr>)
      else if s = ''{"url":"https://example.com","template":"fancy"}''
      then Inr (JsonFields \<lparr> url = JsString ''https://example.com'', template = JsString ''fancy'' \<rparr>)
      else if s = ''{"url":"not a url","template":"bold"}''
      then Inr (JsonFields \<lparr> url = JsString ''not a url'', template = JsString ''bold'' \<rparr>)
      else if s = ''{"url":"not a url","template":""}''
      then Inr (JsonFields \<lparr> url = JsString ''not a url'', template = JsString [] \<rparr>)
      else if s = ''{"url":"not a url"}''
      then Inr (JsonFields \<lparr> url = JsString ''not a url'', template = JsUndefined \<rparr>)
      else Inl (JsError ''Unexpected token in JSON''))\<close>

definition fixtureNewURL :: "js_value \<Rightarrow> thrown + string" where
  "fixtureNewURL v =
     (let u = toStringJs v
      in if startsWith ''https://'' u \<and> drop 8 u \<noteq> []
         then Inr (takeWhile (\<lambda>c. c \<noteq> CHR ''/'') (drop 8 u))
         else Inl (JsError ''Invalid URL''))"

definition fixtureTypeError :: "string \<Rightarrow> thrown" where
  "fixtureTypeError p = JsError (''Cannot read properties of undefined (reading '' @ p @ '')'')"

definition fixtureObjectPrototype :: "string \<Rightarrow> js_value" where
  "fixtureObjectPrototype k =
     (if k \<in> set [''constructor'', ''hasOwnProperty'', ''isPrototypeOf'',
                   ''propertyIsEnumerable'', ''toLocaleString'', ''toString'', ''valueOf'']
      then JsObject ''function () { [native code] }''
      else if k = ''__proto__'' then JsObject ''[object Object]''
      else JsUndefined)"

definition fixtureFetch :: "js_value \<Rightarrow> thrown + http_response" where
  "fixtureFetch u = Inr \<lparr> ok = True, status = 200, responseText = Inr ''<html></html>'' \<rparr>"

definition fencedSvg :: string where
  "fencedSvg = ''```svg\<newline><svg viewBox='0 0 1200 630'><text>Hi</text></svg>\<newline>```\<newline>Here is your banner.''"

definition fixtureWorld :: externals where
  "fixtureWorld =
     \<lparr> apiKey = Some ''sk-test'',
       jsonParse = fixtureParse,
       typeError = fixtureTypeError,
       objectPrototype = fixtureObjectPrototype,
       newURL = fixtureNewURL,
       fetch = fixtureFetch,
       cheerioLoad = (\<lambda>html. Inr fixtureDom),
       messagesCreate = (\<lambda>p. Inr [TextBlock fencedSvg]) \<rparr>"

definition noCredentialWorld :: externals where
  "noCredentialWorld = fixtureWorld \<lparr> apiKey := None \<rparr>"

definition timeoutWorld :: externals where
  "timeoutWorld = fixtureWorld \<lparr> fetch := (\<lambda>u. Inl (JsError ''network timeout'')) \<rparr>"

definition notFoundWorld :: externals where
  "notFoundWorld = fixtureWorld
     \<lparr> fetch := (\<lambda>u. Inr \<lparr> ok = False, status = 404, responseText = Inr [] \<rparr>) \<rparr>"

definition proseWorld :: externals where
  "proseWorld = fixtureWorld \<lparr> messagesCreate := (\<lambda>p. Inr [TextBlock ''I cannot draw that.'']) \<rparr>"

definition postEvent :: "string \<Rightarrow> event" where
  "postEvent s = \<lparr> httpMethod = ''POST'', body = Some s \<rparr>"

section \<open>Properties of the color extraction\<close>

lemma newSet_step_set:
  "set (foldl (\<lambda>acc x. if x \<in> set acc then acc else acc @ [x]) acc xs) = set acc \<union> set xs"
  by (induction xs arbitrary: acc) auto

lemma newSet_step_distinct:
  "distinct acc \<Longrightarrow> distinct (foldl (\<lambda>acc x. if x \<in> set acc then acc else acc @ [x]) acc xs)"
  by (induction xs arbitrary: acc) auto

lemma set_newSet: "set (newSet xs) = set xs"
  by (simp add: newSet_def newSet_step_set)

lemma distinct_newSet: "distinct (newSet xs)"
  by (simp add: newSet_def newSet_step_distinct)

lemma uniqueColors_not_blocklisted:
  "c \<in> set (uniqueColors ms) \<Longrightarrow> toLowerCase c \<notin> set blocklist"
  unfolding uniqueColors_def by (auto dest: in_set_takeD)

lemma extractedColorsOf_not_blocklisted:
  "c \<in> set (extractedColorsOf s) \<Longrightarrow> toLowerCase c \<notin> set blocklist"
  unfolding extractedColorsOf_def
  by (auto split: option.splits dest: uniqueColors_not_blocklisted)

lemma uniqueColors_case_variants:
  "uniqueColors [''#000000'', ''#3B82F6'', ''#3b82f6'', ''#ffffff''] = [''#3B82F6'', ''#3b82f6'']"
  by code_simp

text \<open>
  Claim C1, as the code has it. For every style text whose color tokens are exactly
  \<open>#000000\<close>, \<open>#3B82F6\<close>, \<open>#3b82f6\<close>, \<open>#ffffff\<close>, in that order, the color extraction
  returns \<open>["#3B82F6", "#3b82f6"]\<close>: the blocklisted black and white are dropped, and the
  two spellings of the same hex color are both kept, because \<open>new Set\<close> collapses only
  tokens that are the same string.
\<close>

theorem extractedColors_case_variants_both_kept:
  assumes "colorMatches styleContent = Some [''#000000'', ''#3B82F6'', ''#3b82f6'', ''#ffffff'']"
  shows "extractedColorsOf styleContent = [''#3B82F6'', ''#3b82f6'']"
  using assms by (simp add: extractedColorsOf_def uniqueColors_case_variants)

theorem extractedColors_case_variants_both_kept_witness:
  "colorMatches '':root { --ink: #000000; --brand: #3B82F6; --link: #3b82f6; --paper: #ffffff }''
     = Some [''#000000'', ''#3B82F6'', ''#3b82f6'', ''#ffffff'']
   \<and> extractedColorsOf '':root { --ink: #000000; --brand: #3B82F6; --link: #3b82f6; --paper: #ffffff }''
     = [''#3B82F6'', ''#3b82f6'']"
proof -
  have h: "colorMatches '':root { --ink: #000000; --brand: #3B82F6; --link: #3b82f6; --paper: #ffffff }''
     = Some [''#000000'', ''#3B82F6'', ''#3b82f6'', ''#ffffff'']"
    by code_simp
  from h extractedColors_case_variants_both_kept [OF h] show ?thesis by simp
qed

text \<open>
  Claim C1 as stated fails: on the style text \<open>#000000 #3B82F6 #3b82f6 #ffffff\<close> the
  tokens are the four of the claim and the result is not \<open>["#3B82F6"]\<close>.
\<close>

theorem extractedColors_case_variants_counterexample:
  "colorMatches ''#000000 #3B82F6 #3b82f6 #ffffff''
     = Some [''#000000'', ''#3B82F6'', ''#3b82f6'', ''#ffffff'']
   \<and> extractedColorsOf ''#000000 #3B82F6 #3b82f6 #ffffff'' \<noteq> [''#3B82F6'']"
  by code_simp

text \<open>
  Claim C8, as the code has it. For every style text, no extracted color is, letter case
  ignored, one of the six blocklisted literals \<open>#000\<close>, \<open>#fff\<close>, \<open>#ffffff\<close>,
  \<open>#000000\<close>, \<open>rgb(0,0,0)\<close>, \<open>rgb(255,255,255)\<close>. Other spellings of black and white
  are not on the list and stay.
\<close>

theorem extractedColors_blocklist_excluded:
  "c \<in> set (extractedColorsOf styleContent) \<Longrightarrow>
     toLowerCase c \<notin> {''#000'', ''#fff'', ''#ffffff'', ''#000000'', ''rgb(0,0,0)'', ''rgb(255,255,255)''}"
  using extractedColorsOf_not_blocklisted [of c styleContent] by (simp add: blocklist_def)

theorem extractedColors_blocklist_excluded_witness:
  "''#3B82F6'' \<in> set (extractedColorsOf ''a { color: #FFF; border-color: #3B82F6 }'')
   \<and> toLowerCase ''#3B82F6'' \<notin> {''#000'', ''#fff'', ''#ffffff'', ''#000000'', ''rgb(0,0,0)'', ''rgb(255,255,255)''}"
proof -
  have h: "''#3B82F6'' \<in> set (extractedColorsOf ''a { color: #FFF; border-color: #3B82F6 }'')"
    by code_simp
  from h extractedColors_blocklist_excluded [OF h] show ?thesis by simp
qed

text \<open>
  Claim C8 as stated fails: opaque black written with \<open>rgba\<close> and white written with
  spaces after the commas are both extracted.
\<close>

theorem extractedColors_black_white_counterexample:
  "extractedColorsOf ''a { color: rgba(0,0,0,1); background: rgb(255, 255, 255) }''
     = [''rgba(0,0,0,1)'', ''rgb(255, 255, 255)'']"
  by code_simp

section \<open>Properties of the SVG match\<close>













section \<open>Properties of the title extraction\<close>

lemma trim_Nil: "trim [] = []"
  by (simp add: trim_def)

lemma title_contentOf: "title (contentOf d hostname) = take 100 (titleOf d)"
  by (simp add: contentOf_def)

text \<open>
  Claim C3, as the code has it. For every document without a \<open><title>\<close> element (or
  whose title text is blank) and with an \<open>og:title\<close> meta tag of non-empty content, the
  extracted title is that content as written, not trimmed, cut to its first 100
  characters. The fallback chain is: trimmed \<open><title>\<close> text, then \<open>og:title\<close> content,
  then trimmed text of the first \<open><h1>\<close>, then \<open>Untitled Page\<close>; an empty source is
  skipped, and the result is cut to 100 characters.
\<close>

theorem title_fallback_chain:
  "(titleText d = [] \<and> ogTitleContent d = Some c \<and> c \<noteq> [] \<longrightarrow>
      title (contentOf d hostname) = take 100 c)
   \<and> (trim (titleText d) \<noteq> [] \<longrightarrow>
      title (contentOf d hostname) = take 100 (trim (titleText d)))
   \<and> (trim (titleText d) = [] \<and> ogTitleContent d = Some c \<and> c \<noteq> [] \<longrightarrow>
      title (contentOf d hostname) = take 100 c)
   \<and> (trim (titleText d) = [] \<and> (ogTitleContent d = None \<or> ogTitleContent d = Some [])
        \<and> trim (h1FirstText d) \<noteq> [] \<longrightarrow>
      title (contentOf d hostname) = take 100 (trim (h1FirstText d)))
   \<and> (trim (titleText d) = [] \<and> (ogTitleContent d = None \<or> ogTitleContent d = Some [])
        \<and> trim (h1FirstText d) = [] \<longrightarrow>
      title (contentOf d hostname) = ''Untitled Page'')"
  by (auto simp: title_contentOf titleOf_def trim_Nil)

theorem title_fallback_chain_witness:
  "title (contentOf (fixtureDom \<lparr> titleText := [], ogTitleContent := Some ''Example Domain '' \<rparr>)
     ''example.com'') = ''Example Domain ''"
proof -
  let ?d = "fixtureDom \<lparr> titleText := [], ogTitleContent := Some ''Example Domain '' \<rparr>"
  have h: "titleText ?d = [] \<and> ogTitleContent ?d = Some ''Example Domain '' \<and> ''Example Domain '' \<noteq> []"
    by simp
  from title_fallback_chain [of ?d "''Example Domain ''" "''example.com''"] h
  have "title (contentOf ?d ''example.com'') = take 100 ''Example Domain ''" by blast
  then show ?thesis by simp
qed

text \<open>
  Claim C3 as stated fails, in three ways: the \<open>og:title\<close> content is not trimmed, a
  content of more than 100 characters is cut, and an empty content is skipped.
\<close>

theorem title_og_trimmed_counterexample:
  "title (contentOf (fixtureDom \<lparr> titleText := [], ogTitleContent := Some '' Summer Sale '' \<rparr>)
     ''example.com'') \<noteq> trim '' Summer Sale ''
   \<and> title (contentOf (fixtureDom \<lparr> titleText := [],
        ogTitleContent := Some (replicate 101 CHR ''a'') \<rparr>) ''example.com'')
     \<noteq> trim (replicate 101 CHR ''a'')
   \<and> title (contentOf (fixtureDom \<lparr> titleText := [], ogTitleContent := Some [] \<rparr>)
     ''example.com'') \<noteq> trim []"
  by code_simp

section \<open>Properties of the pipeline stages\<close>

lemma respond_simps:
  "statusCode (respond n b) = n"
  "responseBody (respond n b) = b"
  "headers (respond n b) = corsHeaders"
  "(respond n b = respond n' b') = (n = n' \<and> b = b')"
  by (auto simp: respond_def)

lemma networkCalls_simps:
  "networkCalls [] = []"
  "networkCalls (Fetch u # tr) = Fetch u # networkCalls tr"
  "networkCalls (MessagesCreate p # tr) = MessagesCreate p # networkCalls tr"
  "networkCalls (ConsoleError l e # tr) = networkCalls tr"
  "networkCalls (tr @ tr') = networkCalls tr @ networkCalls tr'"
  by (simp_all add: networkCalls_def)

lemma extractWebpageContent_fetch_rejects:
  "fetch w u = Inl e \<Longrightarrow>
   extractWebpageContent w u =
     (Inl (JsError ''Failed to analyze webpage content''),
      [Fetch u, ConsoleError ''Error extracting webpage content:'' e])"
  by (simp add: extractWebpageContent_def extractCatch_def)

lemma extractWebpageContent_status:
  "fetch w u = Inr r \<Longrightarrow> \<not> ok r \<Longrightarrow>
   extractWebpageContent w u =
     (Inl (JsError ''Failed to analyze webpage content''),
      [Fetch u, ConsoleError ''Error extracting webpage content:''
         (JsError (''HTTP error! status: '' @ showNat (status r)))])"
  by (simp add: extractWebpageContent_def extractCatch_def)

lemma extractWebpageContent_text_rejects:
  "fetch w u = Inr r \<Longrightarrow> ok r \<Longrightarrow> responseText r = Inl e \<Longrightarrow>
   extractWebpageContent w u =
     (Inl (JsError ''Failed to analyze webpage content''),
      [Fetch u, ConsoleError ''Error extracting webpage content:'' e])"
  by (simp add: extractWebpageContent_def extractCatch_def)

lemma extractWebpageContent_load_throws:
  "fetch w u = Inr r \<Longrightarrow> ok r \<Longrightarrow> responseText r = Inr html \<Longrightarrow>
   cheerioLoad w html = Inl e \<Longrightarrow>
   extractWebpageContent w u =
     (Inl (JsError ''Failed to analyze webpage content''),
      [Fetch u, ConsoleError ''Error extracting webpage content:'' e])"
  by (simp add: extractWebpageContent_def extractCatch_def)

lemma extractCatch_Inl:
  assumes "extractCatch cause [Fetch u] = (Inl e, tr)"
  shows "e = JsError ''Failed to analyze webpage content'' \<and> networkCalls tr = [Fetch u]"
  using assms by (auto simp: extractCatch_def networkCalls_simps)

lemma extractWebpageContent_Inl:
  assumes "extractWebpageContent w u = (Inl e, tr)"
  shows "e = JsError ''Failed to analyze webpage content'' \<and> networkCalls tr = [Fetch u]"
proof (cases "fetch w u")
  case (Inl x)
  with assms show ?thesis by (simp add: extractWebpageContent_def extractCatch_Inl)
next
  case (Inr r)
  note r = Inr
  show ?thesis
  proof (cases "ok r")
    case False
    with r assms show ?thesis by (simp add: extractWebpageContent_def extractCatch_Inl)
  next
    case True
    note okr = True
    show ?thesis
    proof (cases "responseText r")
      case (Inl x)
      with r okr assms show ?thesis by (simp add: extractWebpageContent_def extractCatch_Inl)
    next
      case (Inr html)
      note html = Inr
      show ?thesis
      proof (cases "cheerioLoad w html")
        case (Inl x)
        with r okr html assms show ?thesis
          by (simp add: extractWebpageContent_def extractCatch_Inl)
      next
        case (Inr d)
        with r okr html assms show ?thesis
          by (cases "newURL w u") (simp_all add: extractWebpageContent_def extractCatch_Inl)
      qed
    qed
  qed
qed


section \<open>Properties of the handler\<close>

lemma handler_POST:
  "httpMethod ev = ''POST'' \<Longrightarrow>
   handler w ev =
     (case handlerTry w ev of
        (Inr r, tr) \<Rightarrow> (r, tr)
      | (Inl error, tr) \<Rightarrow>
          (respond 500 (ErrorMessageBody ''Internal server error'' (messageOf error)),
           tr @ [ConsoleError ''Function error:'' error]))"
  by (simp add: handler_def)

lemma handler_networkCalls:
  "httpMethod ev = ''POST'' \<Longrightarrow>
   networkCalls (snd (handler w ev)) = networkCalls (snd (handlerTry w ev))"
  by (cases "handlerTry w ev") (auto simp: handler_POST networkCalls_simps split: sum.splits)

lemma handlerTry_pipeline:
  assumes "jsOr (apiKey w) [] \<noteq> []"
    and "jsonParse w (jsOr (body ev) ''{}'') = Inr (JsonFields b)"
    and "truthy (url b)" and "truthy (template b)"
    and "newURL w (url b) = Inr hostname"
  shows "handlerTry w ev =
     (case extractWebpageContent w (url b) of
        (Inl e, tr1) \<Rightarrow> (Inl e, tr1)
      | (Inr webpageContent, tr1) \<Rightarrow>
          (case colorsOf w (template b) (extractedColors webpageContent) of
             Inl e \<Rightarrow> (Inl e, tr1)
           | Inr colorsValue \<Rightarrow>
               (case generateBannerWithAI w webpageContent (template b) of
                  (Inl e, tr2) \<Rightarrow> (Inl e, tr1 @ tr2)
                | (Inr svg, tr2) \<Rightarrow>
                    (Inr (respond 200 (ResultBody
                       \<lparr> resultTitle = title webpageContent,
                         resultDescription = description webpageContent,
                         colors = colorsValue,
                         resultKeywords = keywordList webpageContent,
                         svgContent = svg \<rparr>)),
                     tr1 @ tr2))))"
  using assms by (simp add: handlerTry_def)

lemma handlerTry_result:
  assumes "handlerTry w ev = (Inr resp, tr)" and "responseBody resp = ResultBody r"
  shows "\<exists>b c tr1 cols svg tr2.
           jsonParse w (jsOr (body ev) ''{}'') = Inr (JsonFields b)
         \<and> truthy (url b) \<and> truthy (template b)
         \<and> extractWebpageContent w (url b) = (Inr c, tr1)
         \<and> colorsOf w (template b) (extractedColors c) = Inr cols
         \<and> generateBannerWithAI w c (template b) = (Inr svg, tr2)
         \<and> statusCode resp = 200
         \<and> r = \<lparr> resultTitle = title c, resultDescription = description c,
                 colors = cols, resultKeywords = keywordList c, svgContent = svg \<rparr>"
  using assms unfolding handlerTry_def
  by (auto simp: respond_simps
      split: if_splits sum.splits json_value.splits prod.splits)

lemma handler_result:
  assumes "responseBody (fst (handler w ev)) = ResultBody r"
  shows "\<exists>b c tr1 cols svg tr2.
           jsonParse w (jsOr (body ev) ''{}'') = Inr (JsonFields b)
         \<and> truthy (url b) \<and> truthy (template b)
         \<and> extractWebpageContent w (url b) = (Inr c, tr1)
         \<and> colorsOf w (template b) (extractedColors c) = Inr cols
         \<and> generateBannerWithAI w c (template b) = (Inr svg, tr2)
         \<and> statusCode (fst (handler w ev)) = 200
         \<and> r = \<lparr> resultTitle = title c, resultDescription = description c,
                 colors = cols, resultKeywords = keywordList c, svgContent = svg \<rparr>"
proof -
  obtain x tr where h: "handlerTry w ev = (x, tr)" by (cases "handlerTry w ev")
  from assms have post: "httpMethod ev = ''POST''"
    by (auto simp: handler_def respond_simps split: if_splits)
  with assms h obtain resp where x: "x = Inr resp" and rb: "responseBody resp = ResultBody r"
    and f: "fst (handler w ev) = resp"
    by (cases x) (auto simp: handler_POST respond_simps)
  from handlerTry_result [OF h [unfolded x] rb] f show ?thesis by simp
qed

lemma declared_palette:
  assumes "k \<in> {''modern'', ''minimal'', ''gradient'', ''bold''}"
  shows "\<exists>pal. map_of defaultColorPalettes k = Some pal \<and> length pal = 2"
  using assms by (auto simp: defaultColorPalettes_def)

lemma colorsOf_two_or_more:
  "2 \<le> length ec \<Longrightarrow> colorsOf w t ec = Inr (JsArray (map JsString (take 2 ec)))"
  by (simp add: colorsOf_def stringArray_def)

lemma colorsOf_declared:
  assumes "map_of defaultColorPalettes (toStringJs t) = Some pal" and "length pal = 2"
  shows "colorsOf w t [] = Inr (JsArray (map JsString pal))"
    and "colorsOf w t [x] = Inr (JsArray [JsString x, JsString (pal ! 1)])"
  using assms by (simp_all add: colorsOf_def getProperty_def getIndex1_def stringArray_def)

lemma colorsOf_declared_length:
  assumes "map_of defaultColorPalettes (toStringJs t) = Some pal" and "length pal = 2"
    and "colorsOf w t ec = Inr cols"
  shows "\<exists>xs. cols = JsArray xs \<and> length xs = 2"
proof -
  consider "ec = []" | x where "ec = [x]" | "2 \<le> length ec"
    by (cases ec rule: list.exhaust; cases "tl ec") auto
  then show ?thesis
  proof cases
    case 1
    from colorsOf_declared(1) [OF assms(1,2), of w] assms(3) 1
    have "cols = JsArray (map JsString pal)" by simp
    with assms(2) show ?thesis by simp
  next
    case 2
    from colorsOf_declared(2) [OF assms(1,2), of w x] assms(3) 2
    have "cols = JsArray [JsString x, JsString (pal ! 1)]" by simp
    then show ?thesis by simp
  next
    case 3
    from colorsOf_two_or_more [OF 3, of w t] assms(3)
    have "cols = JsArray (map JsString (take 2 ec))" by simp
    with 3 show ?thesis by simp
  qed
qed

lemma colorsOf_declared_succeeds:
  assumes "toStringJs t \<in> {''modern'', ''minimal'', ''gradient'', ''bold''}"
  shows "\<exists>cols. colorsOf w t ec = Inr cols"
proof -
  from declared_palette [OF assms] obtain pal where
    pal: "map_of defaultColorPalettes (toStringJs t) = Some pal" "length pal = 2"
    by blast
  consider "ec = []" | x where "ec = [x]" | "2 \<le> length ec"
    by (cases ec rule: list.exhaust; cases "tl ec") auto
  then show ?thesis
    using colorsOf_declared [OF pal, of w] colorsOf_two_or_more [of ec w t]
    by cases auto
qed

lemma fixture_request:
  \<open>httpMethod (postEvent ''{"url":"https://example.com","template":"bold"}'') = ''POST''\<close>
  \<open>jsonParse fixtureWorld (jsOr (body (postEvent ''{"url":"https://example.com","template":"bold"}'')) ''{}'')
     = Inr (JsonFields \<lparr> url = JsString ''https://example.com'', template = JsString ''bold'' \<rparr>)\<close>
  \<open>jsonParse proseWorld (jsOr (body (postEvent ''{"url":"https://example.com","template":"bold"}'')) ''{}'')
     = Inr (JsonFields \<lparr> url = JsString ''https://example.com'', template = JsString ''bold'' \<rparr>)\<close>
  \<open>jsonParse timeoutWorld (jsOr (body (postEvent ''{"url":"https://example.com","template":"bold"}'')) ''{}'')
     = Inr (JsonFields \<lparr> url = JsString ''https://example.com'', template = JsString ''bold'' \<rparr>)\<close>
  by code_simp+


text \<open>
  Claim C2, as the code has it. For every successful request whose \<open>template\<close> is one of
  the four template names, the \<open>colors\<close> of the result are resolved from the colors
  extracted from the page of the request: with no extracted color, the default pair of
  the template; with exactly one, that color followed by the second default color of
  the template; with two or more, the first two extracted colors; and the list has
  exactly 2 entries. The first two extracted colors are used whatever the template is.
\<close>

theorem colors_resolution:
  assumes "responseBody (fst (handler w ev)) = ResultBody r"
  shows "\<exists>b c tr.
           jsonParse w (jsOr (body ev) ''{}'') = Inr (JsonFields b)
         \<and> extractWebpageContent w (url b) = (Inr c, tr)
         \<and> (2 \<le> length (extractedColors c) \<longrightarrow>
              colors r = JsArray (map JsString (take 2 (extractedColors c))))
         \<and> (toStringJs (template b) \<in> {''modern'', ''minimal'', ''gradient'', ''bold''} \<longrightarrow>
              (\<exists>pal. map_of defaultColorPalettes (toStringJs (template b)) = Some pal
                 \<and> length pal = 2
                 \<and> (extractedColors c = [] \<longrightarrow> colors r = JsArray (map JsString pal))
                 \<and> (\<forall>x. extractedColors c = [x] \<longrightarrow>
                       colors r = JsArray [JsString x, JsString (pal ! 1)])
                 \<and> (\<exists>xs. colors r = JsArray xs \<and> length xs = 2)))"
proof -
  from handler_result [OF assms] obtain b c tr1 cols svg tr2 where
    p: "jsonParse w (jsOr (body ev) ''{}'') = Inr (JsonFields b)"
       "extractWebpageContent w (url b) = (Inr c, tr1)"
    and cols: "colorsOf w (template b) (extractedColors c) = Inr cols"
    and r: "r = \<lparr> resultTitle = title c, resultDescription = description c,
                 colors = cols, resultKeywords = keywordList c, svgContent = svg \<rparr>"
    by blast
  from r have c: "colors r = cols" by simp
  have two: "colors r = JsArray (map JsString (take 2 (extractedColors c)))"
    if "2 \<le> length (extractedColors c)"
    using colorsOf_two_or_more [OF that, of w "template b"] cols c by simp
  have declared: "\<exists>pal. map_of defaultColorPalettes (toStringJs (template b)) = Some pal
                 \<and> length pal = 2
                 \<and> (extractedColors c = [] \<longrightarrow> colors r = JsArray (map JsString pal))
                 \<and> (\<forall>x. extractedColors c = [x] \<longrightarrow>
                       colors r = JsArray [JsString x, JsString (pal ! 1)])
                 \<and> (\<exists>xs. colors r = JsArray xs \<and> length xs = 2)"
    if "toStringJs (template b) \<in> {''modern'', ''minimal'', ''gradient'', ''bold''}"
  proof -
    from declared_palette [OF that] obtain pal where
      pal: "map_of defaultColorPalettes (toStringJs (template b)) = Some pal" "length pal = 2"
      by blast
    have "extractedColors c = [] \<longrightarrow> colors r = JsArray (map JsString pal)"
      using colorsOf_declared(1) [OF pal, of w] cols c by auto
    moreover have "\<forall>x. extractedColors c = [x] \<longrightarrow>
        colors r = JsArray [JsString x, JsString (pal ! 1)]"
      using colorsOf_declared(2) [OF pal, of w] cols c by auto
    moreover have "\<exists>xs. colors r = JsArray xs \<and> length xs = 2"
      using colorsOf_declared_length [OF pal cols] c by simp
    ultimately show ?thesis using pal by blast
  qed
  from p two declared show ?thesis by blast
qed

theorem colors_resolution_witness:
  \<open>responseBody (fst (handler fixtureWorld
       (postEvent ''{"url":"https://example.com","template":"bold"}''))) =
     ResultBody
       \<lparr> resultTitle = ''Example'', resultDescription = ''Hello world and more.'',
         colors = JsArray [JsString ''#EF4444'', JsString ''#F59E0B''], resultKeywords = [],
         svgContent = ''<svg viewBox='0 0 1200 630'><text>Hi</text></svg>'' \<rparr>
   \<and> (\<exists>xs. JsArray [JsString ''#EF4444'', JsString ''#F59E0B''] = JsArray xs \<and> length xs = 2)\<close>
proof -
  let ?r = "\<lparr> resultTitle = ''Example'', resultDescription = ''Hello world and more.'',
         colors = JsArray [JsString ''#EF4444'', JsString ''#F59E0B''], resultKeywords = [],
         svgContent = ''<svg viewBox='0 0 1200 630'><text>Hi</text></svg>'' \<rparr>"
  let ?ev = \<open>postEvent ''{"url":"https://example.com","template":"bold"}''\<close>
  have h: "responseBody (fst (handler fixtureWorld ?ev)) = ResultBody ?r"
    by code_simp
  from colors_resolution [OF h] obtain b where
    b: "jsonParse fixtureWorld (jsOr (body ?ev) ''{}'') = Inr (JsonFields b)"
    and d: "toStringJs (template b) \<in> {''modern'', ''minimal'', ''gradient'', ''bold''} \<longrightarrow>
              (\<exists>xs. colors ?r = JsArray xs \<and> length xs = 2)"
    by blast
  from b fixture_request(2)
  have "b = \<lparr> url = JsString ''https://example.com'', template = JsString ''bold'' \<rparr>"
    by (simp only: sum.inject json_value.inject)
  then have "template b = JsString ''bold''" by simp
  with d have "\<exists>xs. colors ?r = JsArray xs \<and> length xs = 2" by simp
  with h show ?thesis by simp
qed

text \<open>
  Claim C2 as stated fails: the template of a request is not checked against the four
  names, and a request with another template and a page without colors succeeds with
  \<open>colors\<close> undefined.
\<close>

theorem colors_resolution_counterexample:
  \<open>fst (handler fixtureWorld (postEvent ''{"url":"https://example.com","template":"fancy"}''))
     = respond 200 (ResultBody
         \<lparr> resultTitle = ''Example'', resultDescription = ''Hello world and more.'',
           colors = JsUndefined, resultKeywords = [],
           svgContent = ''<svg viewBox='0 0 1200 630'><text>Hi</text></svg>'' \<rparr>)\<close>
  by code_simp

text \<open>
  Claim C5, as the code has it. For every POST request whose body (an absent or empty
  body counts as \<open>{}\<close>) parses to a value other than \<open>null\<close> and whose \<open>url\<close> or
  \<open>template\<close> field is absent, no fetch and no generation call is made; and when the
  request is processed with the credential set, the handler returns status 400 with body
  \<open>{ error: "URL and template are required" }\<close>.
\<close>

theorem missing_fields_rejected:
  assumes "httpMethod ev = ''POST''"
    and "jsonParse w (jsOr (body ev) ''{}'') = Inr (JsonFields b)"
    and "url b = JsUndefined \<or> template b = JsUndefined"
  shows "networkCalls (snd (handler w ev)) = []
         \<and> (jsOr (apiKey w) [] \<noteq> [] \<longrightarrow>
              fst (handler w ev) = respond 400 (ErrorBody ''URL and template are required''))"
proof -
  from assms(3) have f: "\<not> truthy (url b) \<or> \<not> truthy (template b)" by auto
  have "snd (handlerTry w ev) = []"
    using assms(2) f by (auto simp: handlerTry_def)
  then have "networkCalls (snd (handler w ev)) = []"
    using assms(1) by (simp add: handler_networkCalls networkCalls_simps)
  moreover have "fst (handler w ev) = respond 400 (ErrorBody ''URL and template are required'')"
    if "jsOr (apiKey w) [] \<noteq> []"
  proof -
    from that assms(2) f have "handlerTry w ev =
        (Inr (respond 400 (ErrorBody ''URL and template are required'')), [])"
      by (auto simp: handlerTry_def)
    with assms(1) show ?thesis by (simp add: handler_POST)
  qed
  ultimately show ?thesis by blast
qed

theorem missing_fields_rejected_witness:
  \<open>networkCalls (snd (handler fixtureWorld (postEvent ''{"url":"not a url"}''))) = []
   \<and> fst (handler fixtureWorld (postEvent ''{"url":"not a url"}''))
     = respond 400 (ErrorBody ''URL and template are required'')\<close>
proof -
  have h: \<open>httpMethod (postEvent ''{"url":"not a url"}'') = ''POST''\<close>
    \<open>jsonParse fixtureWorld (jsOr (body (postEvent ''{"url":"not a url"}'')) ''{}'')
       = Inr (JsonFields \<lparr> url = JsString ''not a url'', template = JsUndefined \<rparr>)\<close>
    \<open>url \<lparr> url = JsString ''not a url'', template = JsUndefined \<rparr> = JsUndefined
       \<or> template \<lparr> url = JsString ''not a url'', template = JsUndefined \<rparr> = JsUndefined\<close>
    by code_simp+
  have k: "jsOr (apiKey fixtureWorld) [] \<noteq> []"
    by code_simp
  from missing_fields_rejected [OF h] k show ?thesis by blast
qed

text \<open>
  Claim C5 as stated fails, in two ways: a POST request without the two fields gets
  status 500 while the credential is absent, and the body \<open>null\<close>, which has no fields
  either, gets status 500 with the credential set.
\<close>

theorem missing_fields_counterexample:
  "jsonParse noCredentialWorld (jsOr (body (postEvent ''{}'')) ''{}'')
     = Inr (JsonFields \<lparr> url = JsUndefined, template = JsUndefined \<rparr>)
   \<and> fst (handler noCredentialWorld (postEvent ''{}''))
     = respond 500 (ErrorMessageBody ''Internal server error''
         ''ANTHROPIC_API_KEY environment variable is not set'')
   \<and> jsonParse fixtureWorld (jsOr (body (postEvent ''null'')) ''{}'') = Inr JsonNull
   \<and> statusCode (fst (handler fixtureWorld (postEvent ''null''))) = 500"
  by code_simp

text \<open>
  Claim C6, as the code has it. For every request processed while the credential of the
  generation service is absent from the process environment (or empty), no fetch and no
  generation call is made; and for every POST request so processed the handler returns
  a 500 response whose message names the missing variable. Requests of another method
  are answered by the method guards, which come before the credential is read.
\<close>

theorem missing_credential_fails_fast:
  assumes "apiKey w = None \<or> apiKey w = Some []"
  shows "networkCalls (snd (handler w ev)) = []
         \<and> (httpMethod ev = ''POST'' \<longrightarrow>
              fst (handler w ev) =
                respond 500 (ErrorMessageBody ''Internal server error''
                  ''ANTHROPIC_API_KEY environment variable is not set''))"
proof -
  from assms have "jsOr (apiKey w) [] = []" by auto
  then have t: "handlerTry w ev =
      (Inl (JsError ''ANTHROPIC_API_KEY environment variable is not set''), [])"
    by (simp add: handlerTry_def)
  have "networkCalls (snd (handler w ev)) = []"
  proof (cases "httpMethod ev = ''POST''")
    case True
    with t show ?thesis by (simp add: handler_networkCalls networkCalls_simps)
  next
    case False
    then show ?thesis by (simp add: handler_def networkCalls_simps)
  qed
  moreover have "fst (handler w ev) =
      respond 500 (ErrorMessageBody ''Internal server error''
        ''ANTHROPIC_API_KEY environment variable is not set'')"
    if "httpMethod ev = ''POST''"
    using that t by (simp add: handler_POST messageOf_def)
  ultimately show ?thesis by blast
qed

theorem missing_credential_fails_fast_witness:
  \<open>networkCalls (snd (handler noCredentialWorld
       (postEvent ''{"url":"https://example.com","template":"bold"}''))) = []
   \<and> fst (handler noCredentialWorld
       (postEvent ''{"url":"https://example.com","template":"bold"}'')) =
     respond 500 (ErrorMessageBody ''Internal server error''
       ''ANTHROPIC_API_KEY environment variable is not set'')\<close>
proof -
  have h: \<open>apiKey noCredentialWorld = None \<or> apiKey noCredentialWorld = Some []\<close>
    by code_simp
  have k: \<open>httpMethod (postEvent ''{"url":"https://example.com","template":"bold"}'') = ''POST''\<close>
    by code_simp
  from missing_credential_fails_fast [OF h] k show ?thesis by blast
qed

text \<open>
  Claim C6 as stated fails: a preflight request processed while the credential is absent
  gets status 200.
\<close>

theorem missing_credential_counterexample:
  "apiKey noCredentialWorld = None
   \<and> handler noCredentialWorld \<lparr> httpMethod = ''OPTIONS'', body = None \<rparr>
     = (respond 200 EmptyBody, [])"
  by code_simp

text \<open>
  Claim C7, as the code has it. For every POST request whose body parses to a value
  other than \<open>null\<close> and whose \<open>url\<close> field fails the URL-syntax validation, no fetch and
  no generation call is made; and when the request is processed with the credential set
  and its \<open>url\<close> and \<open>template\<close> are both truthy (present, and not \<open>null\<close>, \<open>false\<close>,
  \<open>0\<close> or the empty string), the handler returns status 400 with body
  \<open>{ error: "Invalid URL provided" }\<close>.
\<close>

theorem invalid_url_rejected:
  assumes "httpMethod ev = ''POST''"
    and "jsonParse w (jsOr (body ev) ''{}'') = Inr (JsonFields b)"
    and "newURL w (url b) = Inl e"
  shows "networkCalls (snd (handler w ev)) = []
         \<and> (jsOr (apiKey w) [] \<noteq> [] \<and> truthy (url b) \<and> truthy (template b) \<longrightarrow>
              fst (handler w ev) = respond 400 (ErrorBody ''Invalid URL provided''))"
proof -
  have "snd (handlerTry w ev) = []"
    using assms(2,3) by (auto simp: handlerTry_def)
  then have "networkCalls (snd (handler w ev)) = []"
    using assms(1) by (simp add: handler_networkCalls networkCalls_simps)
  moreover have "fst (handler w ev) = respond 400 (ErrorBody ''Invalid URL provided'')"
    if "jsOr (apiKey w) [] \<noteq> []" "truthy (url b)" "truthy (template b)"
  proof -
    from that assms(2,3) have "handlerTry w ev =
        (Inr (respond 400 (ErrorBody ''Invalid URL provided'')), [])"
      by (auto simp: handlerTry_def)
    with assms(1) show ?thesis by (simp add: handler_POST)
  qed
  ultimately show ?thesis by blast
qed

theorem invalid_url_rejected_witness:
  \<open>networkCalls (snd (handler fixtureWorld
       (postEvent ''{"url":"not a url","template":"bold"}''))) = []
   \<and> fst (handler fixtureWorld (postEvent ''{"url":"not a url","template":"bold"}''))
     = respond 400 (ErrorBody ''Invalid URL provided'')\<close>
proof -
  let ?b = "\<lparr> url = JsString ''not a url'', template = JsString ''bold'' \<rparr>"
  have h: \<open>httpMethod (postEvent ''{"url":"not a url","template":"bold"}'') = ''POST''\<close>
    \<open>jsonParse fixtureWorld
       (jsOr (body (postEvent ''{"url":"not a url","template":"bold"}'')) ''{}'')
       = Inr (JsonFields ?b)\<close>
    \<open>newURL fixtureWorld (url ?b) = Inl (JsError ''Invalid URL'')\<close>
    by code_simp+
  have k: \<open>jsOr (apiKey fixtureWorld) [] \<noteq> [] \<and> truthy (url ?b) \<and> truthy (template ?b)\<close>
    by code_simp
  from invalid_url_rejected [OF h] k show ?thesis by blast
qed

text \<open>
  Claim C7 as stated fails, in three ways: a POST request with an invalid \<open>url\<close> gets
  status 500 while the credential is absent, and gets the other 400 body when its
  \<open>template\<close> field is absent or is the empty string.
\<close>

theorem invalid_url_counterexample:
  \<open>newURL noCredentialWorld (JsString ''not a url'') = Inl (JsError ''Invalid URL'')
   \<and> fst (handler noCredentialWorld (postEvent ''{"url":"not a url","template":"bold"}''))
     = respond 500 (ErrorMessageBody ''Internal server error''
         ''ANTHROPIC_API_KEY environment variable is not set'')
   \<and> fst (handler fixtureWorld (postEvent ''{"url":"not a url"}''))
     = respond 400 (ErrorBody ''URL and template are required'')
   \<and> fst (handler fixtureWorld (postEvent ''{"url":"not a url","template":""}''))
     = respond 400 (ErrorBody ''URL and template are required'')\<close>
  by code_simp

text \<open>
  Claim C9, as the code has it. For every failure during fetch or parsing,
  \<open>extractWebpageContent\<close> logs the cause with \<open>console.error\<close> (what the fetch rejected
  with, as on a timeout; an \<open>Error\<close> \<open>HTTP error! status: n\<close> for a status \<open>n\<close> that is
  not a success; what reading the body rejected with; what the parser threw) and throws
  an \<open>Error\<close> whose only content is the fixed message
  \<open>Failed to analyze webpage content\<close>: the page URL is not attached to it. A request
  that reaches the extraction is then answered with status 500, that message, and no
  generation call.
\<close>

theorem extraction_failure_mapped:
  "(fetch w u = Inl e \<longrightarrow>
      extractWebpageContent w u =
        (Inl (JsError ''Failed to analyze webpage content''),
         [Fetch u, ConsoleError ''Error extracting webpage content:'' e]))
   \<and> (fetch w u = Inr r \<and> \<not> ok r \<longrightarrow>
      extractWebpageContent w u =
        (Inl (JsError ''Failed to analyze webpage content''),
         [Fetch u, ConsoleError ''Error extracting webpage content:''
            (JsError (''HTTP error! status: '' @ showNat (status r)))]))
   \<and> (fetch w u = Inr r \<and> ok r \<and> responseText r = Inl e \<longrightarrow>
      extractWebpageContent w u =
        (Inl (JsError ''Failed to analyze webpage content''),
         [Fetch u, ConsoleError ''Error extracting webpage content:'' e]))
   \<and> (fetch w u = Inr r \<and> ok r \<and> responseText r = Inr html \<and> cheerioLoad w html = Inl e \<longrightarrow>
      extractWebpageContent w u =
        (Inl (JsError ''Failed to analyze webpage content''),
         [Fetch u, ConsoleError ''Error extracting webpage content:'' e]))
   \<and> (httpMethod ev = ''POST'' \<and> jsOr (apiKey w) [] \<noteq> []
        \<and> jsonParse w (jsOr (body ev) ''{}'') = Inr (JsonFields b)
        \<and> url b = u \<and> truthy u \<and> truthy (template b)
        \<and> newURL w u = Inr hostname
        \<and> fst (extractWebpageContent w u) = Inl x \<longrightarrow>
      x = JsError ''Failed to analyze webpage content''
      \<and> fst (handler w ev) =
          respond 500 (ErrorMessageBody ''Internal server error''
            ''Failed to analyze webpage content'')
      \<and> networkCalls (snd (handler w ev)) = [Fetch u])"
proof (intro conjI impI)
  assume "fetch w u = Inl e"
  then show "extractWebpageContent w u =
        (Inl (JsError ''Failed to analyze webpage content''),
         [Fetch u, ConsoleError ''Error extracting webpage content:'' e])"
    by (rule extractWebpageContent_fetch_rejects)
next
  assume "fetch w u = Inr r \<and> \<not> ok r"
  then show "extractWebpageContent w u =
        (Inl (JsError ''Failed to analyze webpage content''),
         [Fetch u, ConsoleError ''Error extracting webpage content:''
            (JsError (''HTTP error! status: '' @ showNat (status r)))])"
    by (simp add: extractWebpageContent_status)
next
  assume "fetch w u = Inr r \<and> ok r \<and> responseText r = Inl e"
  then show "extractWebpageContent w u =
        (Inl (JsError ''Failed to analyze webpage content''),
         [Fetch u, ConsoleError ''Error extracting webpage content:'' e])"
    by (simp add: extractWebpageContent_text_rejects)
next
  assume "fetch w u = Inr r \<and> ok r \<and> responseText r = Inr html \<and> cheerioLoad w html = Inl e"
  then show "extractWebpageContent w u =
        (Inl (JsError ''Failed to analyze webpage content''),
         [Fetch u, ConsoleError ''Error extracting webpage content:'' e])"
    using extractWebpageContent_load_throws [of w u r html e] by blast
next
  assume a: "httpMethod ev = ''POST'' \<and> jsOr (apiKey w) [] \<noteq> []
        \<and> jsonParse w (jsOr (body ev) ''{}'') = Inr (JsonFields b)
        \<and> url b = u \<and> truthy u \<and> truthy (template b)
        \<and> newURL w u = Inr hostname
        \<and> fst (extractWebpageContent w u) = Inl x"
  then obtain tr where x: "extractWebpageContent w u = (Inl x, tr)"
    by (cases "extractWebpageContent w u") auto
  from extractWebpageContent_Inl [OF x]
  have m: "x = JsError ''Failed to analyze webpage content''" and n: "networkCalls tr = [Fetch u]"
    by simp_all
  from a have "handlerTry w ev =
     (case extractWebpageContent w (url b) of
        (Inl e, tr1) \<Rightarrow> (Inl e, tr1)
      | (Inr webpageContent, tr1) \<Rightarrow>
          (case colorsOf w (template b) (extractedColors webpageContent) of
             Inl e \<Rightarrow> (Inl e, tr1)
           | Inr colorsValue \<Rightarrow>
               (case generateBannerWithAI w webpageContent (template b) of
                  (Inl e, tr2) \<Rightarrow> (Inl e, tr1 @ tr2)
                | (Inr svg, tr2) \<Rightarrow>
                    (Inr (respond 200 (ResultBody
                       \<lparr> resultTitle = title webpageContent,
                         resultDescription = description webpageContent,
                         colors = colorsValue,
                         resultKeywords = keywordList webpageContent,
                         svgContent = svg \<rparr>)),
                     tr1 @ tr2))))"
    using handlerTry_pipeline [of w ev b hostname] by blast
  with a x have t: "handlerTry w ev = (Inl x, tr)" by simp
  from m show "x = JsError ''Failed to analyze webpage content''" .
  from a t m show "fst (handler w ev) =
          respond 500 (ErrorMessageBody ''Internal server error''
            ''Failed to analyze webpage content'')"
    by (simp add: handler_POST messageOf_def)
  from a t n show "networkCalls (snd (handler w ev)) = [Fetch u]"
    by (simp add: handler_networkCalls)
qed

theorem extraction_failure_mapped_witness:
  \<open>extractWebpageContent timeoutWorld (JsString ''https://example.com'')
     = (Inl (JsError ''Failed to analyze webpage content''),
        [Fetch (JsString ''https://example.com''),
         ConsoleError ''Error extracting webpage content:'' (JsError ''network timeout'')])
   \<and> extractWebpageContent notFoundWorld (JsString ''https://example.com'')
     = (Inl (JsError ''Failed to analyze webpage content''),
        [Fetch (JsString ''https://example.com''),
         ConsoleError ''Error extracting webpage content:''
           (JsError ''HTTP error! status: 404'')])
   \<and> fst (handler timeoutWorld (postEvent ''{"url":"https://example.com","template":"bold"}''))
     = respond 500 (ErrorMessageBody ''Internal server error''
         ''Failed to analyze webpage content'')
   \<and> networkCalls (snd (handler timeoutWorld
        (postEvent ''{"url":"https://example.com","template":"bold"}'')))
     = [Fetch (JsString ''https://example.com'')]\<close>
proof -
  let ?u = "JsString ''https://example.com''"
  let ?b = "\<lparr> url = ?u, template = JsString ''bold'' \<rparr>"
  let ?ev = \<open>postEvent ''{"url":"https://example.com","template":"bold"}''\<close>
  let ?r = "\<lparr> ok = False, status = 404, responseText = Inr [] \<rparr>"
  let ?x = "JsError ''Failed to analyze webpage content''"
  note timeout = extraction_failure_mapped
    [of timeoutWorld ?u "JsError ''network timeout''" ?r "[]" ?ev ?b "''example.com''" ?x]
  note notFound = extraction_failure_mapped
    [of notFoundWorld ?u "JsError ''network timeout''" ?r "[]" ?ev ?b "''example.com''" ?x]
  have f: "fetch timeoutWorld ?u = Inl (JsError ''network timeout'')"
    by (simp add: timeoutWorld_def)
  from timeout [THEN conjunct1, THEN mp, OF f]
  have 1: "extractWebpageContent timeoutWorld ?u
     = (Inl ?x,
        [Fetch ?u, ConsoleError ''Error extracting webpage content:'' (JsError ''network timeout'')])" .
  have g: "fetch notFoundWorld ?u = Inr ?r \<and> \<not> ok ?r"
    by (simp add: notFoundWorld_def)
  from notFound [THEN conjunct2, THEN conjunct1, THEN mp, OF g]
  have "extractWebpageContent notFoundWorld ?u
     = (Inl ?x,
        [Fetch ?u, ConsoleError ''Error extracting webpage content:''
           (JsError (''HTTP error! status: '' @ showNat (status ?r)))])" .
  moreover have "showNat (status ?r) = ''404''" by code_simp
  ultimately have 2: "extractWebpageContent notFoundWorld ?u
     = (Inl ?x,
        [Fetch ?u, ConsoleError ''Error extracting webpage content:''
           (JsError ''HTTP error! status: 404'')])"
    by simp
  have h: "httpMethod ?ev = ''POST''" "jsOr (apiKey timeoutWorld) [] \<noteq> []"
    "url ?b = ?u" "truthy ?u" "truthy (template ?b)"
    "newURL timeoutWorld ?u = Inr ''example.com''"
    by code_simp+
  from 1 have x: "fst (extractWebpageContent timeoutWorld ?u) = Inl ?x"
    by (simp only: fst_conv)
  have hyp: "httpMethod ?ev = ''POST'' \<and> jsOr (apiKey timeoutWorld) [] \<noteq> []
        \<and> jsonParse timeoutWorld (jsOr (body ?ev) ''{}'') = Inr (JsonFields ?b)
        \<and> url ?b = ?u \<and> truthy ?u \<and> truthy (template ?b)
        \<and> newURL timeoutWorld ?u = Inr ''example.com''
        \<and> fst (extractWebpageContent timeoutWorld ?u) = Inl ?x"
    using h fixture_request(4) x by (intro conjI)
  note 3 = timeout [THEN conjunct2, THEN conjunct2, THEN conjunct2, THEN conjunct2,
      THEN mp, OF hyp, THEN conjunct2]
  from 1 2 3 show ?thesis by (intro conjI) (rule conjunct1, assumption | rule conjunct2, assumption | assumption)+
qed

text \<open>
  Claim C9 as stated fails: the error thrown for two different page URLs is the same
  value, so it carries no URL.
\<close>

theorem extraction_error_url_counterexample:
  "fst (extractWebpageContent timeoutWorld (JsString ''https://example.com/a''))
     = Inl (JsError ''Failed to analyze webpage content'')
   \<and> fst (extractWebpageContent timeoutWorld (JsString ''https://example.org/b''))
     = Inl (JsError ''Failed to analyze webpage content'')"
  by code_simp

text \<open>
  Claim C10. For every POST request processed with the credential set, a body that is
  present and is not valid JSON gets status 500 with error \<open>Internal server error\<close>:
  what \<open>JSON.parse\<close> throws reaches the catch-all. An absent or empty body is replaced by
  \<open>{}\<close>, is treated as missing fields and gets status 400.
\<close>

theorem invalid_json_is_500:
  assumes "httpMethod ev = ''POST''" and "jsOr (apiKey w) [] \<noteq> []"
  shows "(\<forall>s e. body ev = Some s \<and> s \<noteq> [] \<and> jsonParse w s = Inl e \<longrightarrow>
            handler w ev =
              (respond 500 (ErrorMessageBody ''Internal server error'' (messageOf e)),
               [ConsoleError ''Function error:'' e])
            \<and> statusCode (fst (handler w ev)) \<noteq> 400)
         \<and> ((body ev = None \<or> body ev = Some [])
              \<and> jsonParse w ''{}''
                = Inr (JsonFields \<lparr> url = JsUndefined, template = JsUndefined \<rparr>) \<longrightarrow>
            handler w ev = (respond 400 (ErrorBody ''URL and template are required''), []))"
proof (intro conjI allI impI)
  fix s e
  assume "body ev = Some s \<and> s \<noteq> [] \<and> jsonParse w s = Inl e"
  with assms(2) have "handlerTry w ev = (Inl e, [])"
    by (simp add: handlerTry_def)
  with assms(1) show h: "handler w ev =
      (respond 500 (ErrorMessageBody ''Internal server error'' (messageOf e)),
       [ConsoleError ''Function error:'' e])"
    by (simp add: handler_POST)
  show "statusCode (fst (handler w ev)) \<noteq> 400"
    unfolding h by (simp add: respond_simps)
next
  assume a: "(body ev = None \<or> body ev = Some [])
     \<and> jsonParse w ''{}'' = Inr (JsonFields \<lparr> url = JsUndefined, template = JsUndefined \<rparr>)"
  then have "jsOr (body ev) ''{}'' = ''{}''" by auto
  with a assms(2) have "handlerTry w ev =
      (Inr (respond 400 (ErrorBody ''URL and template are required'')), [])"
    by (simp add: handlerTry_def)
  with assms(1) show "handler w ev = (respond 400 (ErrorBody ''URL and template are required''), [])"
    by (simp add: handler_POST)
qed

theorem invalid_json_is_500_witness:
  "handler fixtureWorld (postEvent ''{url: oops'')
     = (respond 500 (ErrorMessageBody ''Internal server error'' ''Unexpected token in JSON''),
        [ConsoleError ''Function error:'' (JsError ''Unexpected token in JSON'')])
   \<and> handler fixtureWorld \<lparr> httpMethod = ''POST'', body = None \<rparr>
     = (respond 400 (ErrorBody ''URL and template are required''), [])"
proof -
  have h: "httpMethod (postEvent ''{url: oops'') = ''POST''"
    "httpMethod \<lparr> httpMethod = ''POST'', body = None \<rparr> = ''POST''"
    "jsOr (apiKey fixtureWorld) [] \<noteq> []"
    by code_simp+
  have k: "body (postEvent ''{url: oops'') = Some ''{url: oops'' \<and> ''{url: oops'' \<noteq> []
      \<and> jsonParse fixtureWorld ''{url: oops'' = Inl (JsError ''Unexpected token in JSON'')"
    "(body \<lparr> httpMethod = ''POST'', body = None \<rparr> = None
        \<or> body \<lparr> httpMethod = ''POST'', body = None \<rparr> = Some [])
      \<and> jsonParse fixtureWorld ''{}''
        = Inr (JsonFields \<lparr> url = JsUndefined, template = JsUndefined \<rparr>)"
    by code_simp+
  from invalid_json_is_500 [OF h(1) h(3)] k(1)
  have "handler fixtureWorld (postEvent ''{url: oops'')
     = (respond 500 (ErrorMessageBody ''Internal server error''
          (messageOf (JsError ''Unexpected token in JSON''))),
        [ConsoleError ''Function error:'' (JsError ''Unexpected token in JSON'')])"
    by blast
  moreover from invalid_json_is_500 [OF h(2) h(3)] k(2)
  have "handler fixtureWorld \<lparr> httpMethod = ''POST'', body = None \<rparr>
     = (respond 400 (ErrorBody ''URL and template are required''), [])"
    by blast
  ultimately show ?thesis by (simp add: messageOf_def)
qed



end
